theory Spec2Isabelle
  imports Main "HOL-Library.Sublist"
begin

section \<open>Agent and command toolkit scripts\<close>

text \<open>
  A shallow embedding of the Python scripts of the agent toolkit
  (\<^verbatim>\<open>activate_agent.py\<close>, \<^verbatim>\<open>create_skogix_agent.py\<close>, \<^verbatim>\<open>validate_agent.py\<close>,
  \<^verbatim>\<open>validate_skogix_agent.py\<close>) and of the command toolkit (\<^verbatim>\<open>create_command.py\<close>,
  \<^verbatim>\<open>validate_command.py\<close>).

  Python strings are modelled as \<^typ>\<open>string\<close>; a \<^typ>\<open>char\<close> stands for the code point
  of the same number, so the model covers texts whose code points are below 256.
  The character classes below list what Python 3 answers on that range.
\<close>

subsection \<open>Paths and the file system\<close>

text \<open>
  An absolute \<^verbatim>\<open>pathlib.Path\<close> is the list of its components below the root; the
  root itself is the empty list. \<^verbatim>\<open>Path.parent\<close> drops the last component and leaves
  the root unchanged, \<^verbatim>\<open>p / name\<close> appends a component. The file system is the set of
  paths that exist.
\<close>

type_synonym path = "string list"

definition parent :: "path \<Rightarrow> path" where
  "parent p = butlast p"

definition exists_path :: "path set \<Rightarrow> path \<Rightarrow> bool" where
  "exists_path fs p = (p \<in> fs)"

datatype error = NoProjectRoot | InvalidScope string | SourceNotFound

subsection \<open>Directory resolution\<close>

text \<open>
  The loop shared by \<^verbatim>\<open>activate_agent\<close> and \<^verbatim>\<open>create_agent\<close>:
  \<^verbatim>\<open>
  current = Path.cwd()
  while current != current.parent:
      if (current / ".claude").exists():
          target_dir = current / ".claude" / "agents"
          break
      current = current.parent
  else:
      print("Error: No .claude/ directory found in project hierarchy")
      sys.exit(1)
  \<close>
  The result is the target directory, or \<open>None\<close> when the \<^verbatim>\<open>else\<close> branch of the
  loop is taken.
\<close>

function find_project_agents :: "path set \<Rightarrow> path \<Rightarrow> path option" where
  "find_project_agents fs current =
     (if current \<noteq> parent current then
        (if exists_path fs (current @ [''.claude''])
         then Some (current @ [''.claude'', ''agents''])
         else find_project_agents fs (parent current))
      else None)"
  by pat_completeness auto
termination
  by (relation "measure (\<lambda>(fs, current). length current)")
     (auto simp: parent_def intro: diff_less elim: contrapos_np)

declare find_project_agents.simps [simp del]

text \<open>The scope dispatch of \<^verbatim>\<open>activate_agent\<close> (after the source file was found).\<close>

definition activate_agent_dir :: "path \<Rightarrow> path \<Rightarrow> path set \<Rightarrow> string \<Rightarrow> error + path" where
  "activate_agent_dir home cwd fs scope =
     (if scope = ''user'' then Inr (home @ [''.claude'', ''agents''])
      else if scope = ''project'' then
        (case find_project_agents fs cwd of
           Some target_dir \<Rightarrow> Inr target_dir
         | None \<Rightarrow> Inl NoProjectRoot)
      else Inl (InvalidScope scope))"

text \<open>The scope dispatch of \<^verbatim>\<open>create_agent\<close> in \<^verbatim>\<open>create_skogix_agent.py\<close>.\<close>

definition create_agent_dir :: "path \<Rightarrow> path \<Rightarrow> path set \<Rightarrow> string \<Rightarrow> error + path" where
  "create_agent_dir home cwd fs scope =
     (if scope = ''user'' then Inr (home @ [''.claude'', ''agents''])
      else if scope = ''project'' then
        (case find_project_agents fs cwd of
           Some target_dir \<Rightarrow> Inr target_dir
         | None \<Rightarrow> Inl NoProjectRoot)
      else Inl (InvalidScope scope))"

text \<open>
  The scope dispatch of \<^verbatim>\<open>create_command\<close>:
  \<^verbatim>\<open>
  if scope == 'user':
      commands_dir = Path.home() / '.claude' / 'commands'
  elif scope == 'project':
      commands_dir = Path.cwd() / '.claude' / 'commands'
  else:
      return None
  \<close>
\<close>

definition create_command_dir :: "path \<Rightarrow> path \<Rightarrow> path set \<Rightarrow> string \<Rightarrow> error + path" where
  "create_command_dir home cwd fs scope =
     (if scope = ''user'' then Inr (home @ [''.claude'', ''commands''])
      else if scope = ''project'' then Inr (cwd @ [''.claude'', ''commands''])
      else Inl (InvalidScope scope))"

subsection \<open>Text primitives\<close>

definition newline :: char where
  "newline = CHR 0x0A"

text \<open>\<^verbatim>\<open>str.isspace\<close>, which is also the class \<^verbatim>\<open>\s\<close> of \<^verbatim>\<open>re\<close> on \<^verbatim>\<open>str\<close> patterns.\<close>

definition isspace :: "char \<Rightarrow> bool" where
  "isspace c = (c \<in> set [CHR 0x09, CHR 0x0A, CHR 0x0B, CHR 0x0C, CHR 0x0D, CHR 0x1C,
                           CHR 0x1D, CHR 0x1E, CHR 0x1F, CHR 0x20, CHR 0x85, CHR 0xA0])"

text \<open>\<^verbatim>\<open>str.islower\<close> and \<^verbatim>\<open>str.isdigit\<close> of one character.\<close>

definition islower :: "char \<Rightarrow> bool" where
  "islower c = (let n = (of_char c :: nat) in
     (97 \<le> n \<and> n \<le> 122) \<or> n = 170 \<or> n = 181 \<or> n = 186 \<or>
     (223 \<le> n \<and> n \<le> 246) \<or> (248 \<le> n \<and> n \<le> 255))"

definition isdigit :: "char \<Rightarrow> bool" where
  "isdigit c = (let n = (of_char c :: nat) in
     (48 \<le> n \<and> n \<le> 57) \<or> n = 178 \<or> n = 179 \<or> n = 185)"

text \<open>The class \<^verbatim>\<open>\d\<close> of \<^verbatim>\<open>re\<close>.\<close>

definition isdecimal :: "char \<Rightarrow> bool" where
  "isdecimal c = (let n = (of_char c :: nat) in 48 \<le> n \<and> n \<le> 57)"

text \<open>The class \<^verbatim>\<open>\w\<close> of \<^verbatim>\<open>re\<close>.\<close>

definition isword :: "char \<Rightarrow> bool" where
  "isword c = (let n = (of_char c :: nat) in
     (48 \<le> n \<and> n \<le> 57) \<or> (65 \<le> n \<and> n \<le> 90) \<or> n = 95 \<or> (97 \<le> n \<and> n \<le> 122) \<or>
     n = 170 \<or> n = 178 \<or> n = 179 \<or> n = 181 \<or> n = 185 \<or> n = 186 \<or>
     (188 \<le> n \<and> n \<le> 190) \<or> (192 \<le> n \<and> n \<le> 214) \<or> (216 \<le> n \<and> n \<le> 246) \<or>
     (248 \<le> n \<and> n \<le> 255))"

text \<open>\<^verbatim>\<open>str.lower\<close>, character by character.\<close>

definition lower_char :: "char \<Rightarrow> char" where
  "lower_char c = (let n = (of_char c :: nat) in
     if (65 \<le> n \<and> n \<le> 90) \<or> (192 \<le> n \<and> n \<le> 214) \<or> (216 \<le> n \<and> n \<le> 222)
     then char_of (n + 32) else c)"

definition lower :: "string \<Rightarrow> string" where
  "lower s = map lower_char s"

text \<open>\<^verbatim>\<open>s.strip()\<close>, \<^verbatim>\<open>s.lstrip('#')\<close> and \<^verbatim>\<open>s.strip('#')\<close>.\<close>

definition strip :: "string \<Rightarrow> string" where
  "strip s = rev (dropWhile isspace (rev (dropWhile isspace s)))"

definition lstrip_hash :: "string \<Rightarrow> string" where
  "lstrip_hash s = dropWhile (\<lambda>c. c = CHR ''#'') s"

definition strip_hash :: "string \<Rightarrow> string" where
  "strip_hash s = rev (dropWhile (\<lambda>c. c = CHR ''#'') (rev (dropWhile (\<lambda>c. c = CHR ''#'') s)))"

text \<open>\<^verbatim>\<open>s.startswith(p)\<close>, \<^verbatim>\<open>s.endswith(p)\<close> and \<^verbatim>\<open>sub in s\<close>.\<close>

definition startswith :: "string \<Rightarrow> string \<Rightarrow> bool" where
  "startswith s p = prefix p s"

definition endswith :: "string \<Rightarrow> string \<Rightarrow> bool" where
  "endswith s p = suffix p s"

fun contains :: "string \<Rightarrow> string \<Rightarrow> bool" where
  "contains sub [] = (sub = [])"
| "contains sub (c # cs) = (prefix sub (c # cs) \<or> contains sub cs)"

text \<open>
  \<^verbatim>\<open>s.count(sub)\<close>: the occurrences of \<open>sub\<close> counted from the left without overlap.
  \<^verbatim>\<open>len(re.findall(sub, s))\<close> for a pattern without special characters is the same
  number.
\<close>

function count_sub :: "string \<Rightarrow> string \<Rightarrow> nat" where
  "count_sub sub s =
     (if sub = [] then length s + 1
      else if s = [] then 0
      else if prefix sub s then 1 + count_sub sub (drop (length sub) s)
      else count_sub sub (tl s))"
  by pat_completeness auto
termination
  by (relation "measure (\<lambda>(sub, s). length s)") auto

declare count_sub.simps [simp del]

text \<open>
  \<^verbatim>\<open>s.split('\n')\<close>: the last element is what follows the last line break. The result
  is never empty, so the second case below is not reached.
\<close>

fun split_lines :: "string \<Rightarrow> string list" where
  "split_lines [] = [[]]"
| "split_lines (c # cs) =
     (if c = newline then [] # split_lines cs
      else (case split_lines cs of
              line # lines \<Rightarrow> (c # line) # lines
            | [] \<Rightarrow> [[c]]))"

text \<open>The text after the first occurrence of \<open>sub\<close>, if there is one.\<close>

fun after_first :: "string \<Rightarrow> string \<Rightarrow> string option" where
  "after_first sub [] = (if sub = [] then Some [] else None)"
| "after_first sub (c # cs) =
     (if prefix sub (c # cs) then Some (drop (length sub) (c # cs)) else after_first sub cs)"

subsection \<open>Command names\<close>

text \<open>
  \<^verbatim>\<open>re.match(r'^[a-z0-9]+(-[a-z0-9]+)*$', name)\<close> in \<^verbatim>\<open>_check_file_naming\<close>.
  \<open>kebab_groups g s\<close> reads \<open>s\<close> to its end; \<open>g\<close> says that the current group already
  has a character. Without \<^verbatim>\<open>re.MULTILINE\<close> the anchor \<^verbatim>\<open>$\<close> holds at the end of the
  string and also just before a line break that ends the string.
\<close>

definition kebab_char :: "char \<Rightarrow> bool" where
  "kebab_char c = (let n = (of_char c :: nat) in (97 \<le> n \<and> n \<le> 122) \<or> (48 \<le> n \<and> n \<le> 57))"

fun kebab_groups :: "bool \<Rightarrow> string \<Rightarrow> bool" where
  "kebab_groups g [] = g"
| "kebab_groups g (c # cs) =
     (if kebab_char c then kebab_groups True cs
      else if c = CHR ''-'' \<and> g then kebab_groups False cs
      else False)"

definition matches_kebab :: "string \<Rightarrow> bool" where
  "matches_kebab name =
     (kebab_groups False name \<or>
      (name \<noteq> [] \<and> last name = newline \<and> kebab_groups False (butlast name)))"

text \<open>
  The two tests of \<^verbatim>\<open>main\<close> in \<^verbatim>\<open>create_command.py\<close> on \<^verbatim>\<open>sys.argv[1]\<close>; each failure
  prints its message and exits with status 1:
  \<^verbatim>\<open>
  if not all(c.islower() or c.isdigit() or c == '-' for c in command_name): ...
  if command_name.startswith('-') or command_name.endswith('-'): ...
  \<close>
\<close>

datatype name_error = NotKebabCharacters | HyphenAtEdge

definition check_command_name :: "string \<Rightarrow> name_error option" where
  "check_command_name command_name =
     (if \<not> list_all (\<lambda>c. islower c \<or> isdigit c \<or> c = CHR ''-'') command_name
      then Some NotKebabCharacters
      else if startswith command_name ''-'' \<or> endswith command_name ''-''
      then Some HyphenAtEdge
      else None)"

subsection \<open>The command validator\<close>

text \<open>
  The messages that \<^verbatim>\<open>CommandValidator\<close> appends to its three lists, one constructor
  for each message text, with the values formatted into it.
\<close>

datatype finding =
    FileDoesNotExist
  | BadExtension string
  | ReadFailed
  | NotKebabCase string
  | NameLong nat
  | NameShort string
  | FileEmpty
  | ContentShort
  | MissingTitle
  | MissingArguments
  | ManyArguments nat
  | FoundArguments nat
  | MissingSection string
  | FoundSection string
  | NoHeadings
  | FirstHeadingNotH1 nat
  | HierarchyJump nat nat nat
  | FoundHeadings nat
  | NoNumberedSteps
  | FewSteps nat
  | ManySteps nat
  | WellDefinedSteps nat
  | HasBestPractices
  | NoBestPractices
  | HasAdaptation
  | NoAdaptation
  | CodeBlocks nat

record validator =
  errors :: "finding list"
  warnings :: "finding list"
  info :: "finding list"

definition new_validator :: validator where
  "new_validator = \<lparr>errors = [], warnings = [], info = []\<rparr>"

definition add_error :: "finding \<Rightarrow> validator \<Rightarrow> validator" where
  "add_error f v = v\<lparr>errors := errors v @ [f]\<rparr>"

definition add_warning :: "finding \<Rightarrow> validator \<Rightarrow> validator" where
  "add_warning f v = v\<lparr>warnings := warnings v @ [f]\<rparr>"

definition add_info :: "finding \<Rightarrow> validator \<Rightarrow> validator" where
  "add_info f v = v\<lparr>info := info v @ [f]\<rparr>"

text \<open>\<^verbatim>\<open>_check_file_naming\<close>; \<open>name\<close> is \<^verbatim>\<open>self.file_path.stem\<close>.\<close>

definition check_file_naming :: "string \<Rightarrow> validator \<Rightarrow> validator" where
  "check_file_naming name v =
     (let v1 = (if \<not> matches_kebab name then add_error (NotKebabCase name) v else v);
          v2 = (if length name > 50 then add_warning (NameLong (length name)) v1 else v1)
      in if length name < 3 then add_warning (NameShort name) v2 else v2)"

text \<open>
  \<^verbatim>\<open>re.search(r'^# .+', content, re.MULTILINE)\<close>: some line starts with \<^verbatim>\<open># \<close> and has
  one more character.
\<close>

definition has_title :: "string \<Rightarrow> bool" where
  "has_title content =
     list_ex (\<lambda>line. startswith line ''# '' \<and> length line \<ge> 3) (split_lines content)"

text \<open>
  \<^verbatim>\<open>_check_content_structure\<close>:
  \<^verbatim>\<open>
  if not self.content.strip():
      self.errors.append("File is empty")
      return
  if len(self.content) < 100:
      self.warnings.append("File content is very short. ...")
  if not re.search(r'^# .+', self.content, re.MULTILINE):
      self.errors.append("Missing title (H1 heading)")
  \<close>
\<close>

definition check_content_structure :: "string \<Rightarrow> validator \<Rightarrow> validator" where
  "check_content_structure content v =
     (if strip content = [] then add_error FileEmpty v
      else
        (let v1 = (if length content < 100 then add_warning ContentShort v else v)
         in if \<not> has_title content then add_error MissingTitle v1 else v1))"

text \<open>\<^verbatim>\<open>_check_arguments_placeholder\<close>.\<close>

definition check_arguments_placeholder :: "string \<Rightarrow> validator \<Rightarrow> validator" where
  "check_arguments_placeholder content v =
     (if \<not> contains ''$ARGUMENTS'' content then add_error MissingArguments v
      else
        (let count = count_sub ''$ARGUMENTS'' content;
             v1 = (if count > 5 then add_warning (ManyArguments count) v else v)
         in add_info (FoundArguments count) v1))"

text \<open>\<^verbatim>\<open>_check_required_sections\<close>: the dictionary is read in the order it is written.\<close>

definition check_section :: "string \<Rightarrow> string \<Rightarrow> validator \<Rightarrow> validator" where
  "check_section content section v =
     (if \<not> contains section content then add_error (MissingSection section) v
      else add_info (FoundSection section) v)"

definition check_required_sections :: "string \<Rightarrow> validator \<Rightarrow> validator" where
  "check_required_sections content v =
     check_section content ''## Process'' (check_section content ''## Task'' v)"

text \<open>
  \<^verbatim>\<open>_check_heading_structure\<close>. A heading is the triple \<^verbatim>\<open>(level, text, i)\<close>:
  \<^verbatim>\<open>
  for i, line in enumerate(lines, 1):
      if line.strip().startswith('#'):
          level = len(line) - len(line.lstrip('#'))
          text = line.strip('#').strip()
          headings.append((level, text, i))
  \<close>
\<close>

type_synonym heading = "nat \<times> string \<times> nat"

definition heading_level :: "heading \<Rightarrow> nat" where
  "heading_level h = fst h"

definition heading_line :: "heading \<Rightarrow> nat" where
  "heading_line h = snd (snd h)"

fun collect_headings :: "nat \<Rightarrow> string list \<Rightarrow> heading list" where
  "collect_headings i [] = []"
| "collect_headings i (line # lines) =
     (if startswith (strip line) ''#''
      then (length line - length (lstrip_hash line), strip (strip_hash line), i)
             # collect_headings (Suc i) lines
      else collect_headings (Suc i) lines)"

text \<open>
  The loop over \<^verbatim>\<open>range(1, len(headings))\<close>, which compares each heading with the one
  before it.
\<close>

fun hierarchy_jumps :: "heading list \<Rightarrow> validator \<Rightarrow> validator" where
  "hierarchy_jumps (h_prev # h_curr # hs) v =
     hierarchy_jumps (h_curr # hs)
       (if heading_level h_curr > heading_level h_prev + 1
        then add_warning
               (HierarchyJump (heading_level h_prev) (heading_level h_curr) (heading_line h_curr)) v
        else v)"
| "hierarchy_jumps hs v = v"

definition check_heading_structure :: "string \<Rightarrow> validator \<Rightarrow> validator" where
  "check_heading_structure content v =
     (let headings = collect_headings 1 (split_lines content)
      in if headings = [] then add_error NoHeadings v
         else
           (let v1 = (if heading_level (hd headings) \<noteq> 1
                      then add_warning (FirstHeadingNotH1 (heading_level (hd headings))) v
                      else v)
            in add_info (FoundHeadings (length headings)) (hierarchy_jumps headings v1)))"

text \<open>
  \<^verbatim>\<open>re.search(r'## Process\s*\n(.*?)(?=\n##|\Z)', content, re.DOTALL)\<close>, the value is
  \<^verbatim>\<open>group(1)\<close>. At a position that starts with \<^verbatim>\<open>## Process\<close> the greedy \<^verbatim>\<open>\s*\<close> takes the
  whole run of white space that follows and gives characters back until a line break
  comes next, so the group starts after the last line break of that run; the group
  ends before the first \<^verbatim>\<open>\n##\<close>, or at the end of the text.
\<close>

fun before_next_section :: "string \<Rightarrow> string" where
  "before_next_section [] = []"
| "before_next_section (c # cs) =
     (if prefix (newline # ''##'') (c # cs) then [] else c # before_next_section cs)"

definition match_process_at :: "string \<Rightarrow> string option" where
  "match_process_at s =
     (if prefix ''## Process'' s then
        (let rest = drop 10 s; w = takeWhile isspace rest
         in if newline \<in> set w
            then Some (before_next_section
                         (rev (takeWhile (\<lambda>c. c \<noteq> newline) (rev w)) @ dropWhile isspace rest))
            else None)
      else None)"

fun search_process :: "string \<Rightarrow> string option" where
  "search_process [] = None"
| "search_process (c # cs) =
     (case match_process_at (c # cs) of
        Some g \<Rightarrow> Some g
      | None \<Rightarrow> search_process cs)"

text \<open>
  One match of \<^verbatim>\<open>^\d+\.\s+.+\<close> at the start of \<open>s\<close>; the value is the text that follows
  the match. The greedy \<^verbatim>\<open>\s+\<close> may run over line breaks. When the white space reaches
  the end of the text, \<^verbatim>\<open>\s+\<close> gives characters back until \<^verbatim>\<open>.+\<close> finds a character
  that is no line break.
\<close>

definition match_step :: "string \<Rightarrow> string option" where
  "match_step s =
     (let ds = takeWhile isdecimal s; r1 = dropWhile isdecimal s
      in if ds = [] then None
         else case r1 of
           [] \<Rightarrow> None
         | c # r2 \<Rightarrow>
             if c \<noteq> CHR ''.'' then None
             else
               (let w = takeWhile isspace r2; r3 = dropWhile isspace r2
                in if w = [] then None
                   else if r3 \<noteq> [] then Some (dropWhile (\<lambda>c. c \<noteq> newline) r3)
                   else
                     (let t = takeWhile (\<lambda>c. c = newline) (rev w)
                      in if length w - length t \<ge> 2 then Some t else None)))"

text \<open>
  \<^verbatim>\<open>len(re.findall(r'^\d+\.\s+.+', process_content, re.MULTILINE))\<close>: the matches are
  looked for from left to right, a match may start at the start of a line only, and the
  search goes on after the end of a match. \<open>at_start\<close> says that \<open>s\<close> starts a line.
\<close>

function count_steps :: "bool \<Rightarrow> string \<Rightarrow> nat" where
  "count_steps at_start s =
     (if s = [] then 0
      else case (if at_start then match_step s else None) of
             Some rest \<Rightarrow> 1 + count_steps False rest
           | None \<Rightarrow> count_steps (hd s = newline) (tl s))"
  by pat_completeness auto
termination
proof (relation "measure (\<lambda>(at_start, s). length s)", goal_cases)
  case 1
  show ?case by simp
next
  case (2 at_start s)
  then show ?case by (cases s) auto
next
  case (3 at_start s rest)
  from 3(2) have m: "match_step s = Some rest"
    by (simp split: if_splits)
  have s: "length s = length (takeWhile isdecimal s) + length (dropWhile isdecimal s)"
    by (simp only: length_append [symmetric] takeWhile_dropWhile_id)
  from m obtain c r2 where r1: "dropWhile isdecimal s = c # r2"
    unfolding match_step_def Let_def by (auto split: if_splits list.splits)
  have le1: "length (dropWhile (\<lambda>c. c \<noteq> newline) (dropWhile isspace r2)) \<le> length r2"
    by (rule order_trans [OF length_dropWhile_le length_dropWhile_le])
  have "length (takeWhile (\<lambda>c. c = newline) (rev (takeWhile isspace r2)))
          \<le> length (rev (takeWhile isspace r2))"
    by (rule length_takeWhile_le)
  also have "\<dots> \<le> length r2"
    by (simp add: length_takeWhile_le)
  finally have le2:
    "length (takeWhile (\<lambda>c. c = newline) (rev (takeWhile isspace r2))) \<le> length r2" .
  have rest: "length rest \<le> length r2"
    using m r1 le1 le2 unfolding match_step_def Let_def
    by (auto split: if_splits)
  from s r1 rest have "length rest < length s" by simp
  then show ?case by simp
qed

declare count_steps.simps [simp del]

text \<open>\<^verbatim>\<open>_check_process_steps\<close>.\<close>

definition check_process_steps :: "string \<Rightarrow> validator \<Rightarrow> validator" where
  "check_process_steps content v =
     (case search_process content of
        None \<Rightarrow> v
      | Some process_content \<Rightarrow>
          (let step_count = count_steps True process_content
           in if step_count = 0 then add_warning NoNumberedSteps v
              else if step_count < 3 then add_warning (FewSteps step_count) v
              else if step_count > 10 then add_warning (ManySteps step_count) v
              else add_info (WellDefinedSteps step_count) v))"

text \<open>
  The three patterns of the adaptation statement, searched with \<^verbatim>\<open>re.IGNORECASE\<close>:
  \<^verbatim>\<open>I'll adapt\<close>, \<^verbatim>\<open>adapt to your\<close> and \<^verbatim>\<open>following.*(project|your).*patterns\<close>. The
  letters of the patterns are ASCII, so a text matches when its lower-case form does;
  \<^verbatim>\<open>.\<close> matches no line break, so the third pattern matches inside one line.
\<close>

definition following_patterns :: "string \<Rightarrow> bool" where
  "following_patterns line =
     (case after_first ''following'' line of
        None \<Rightarrow> False
      | Some r \<Rightarrow>
          (case after_first ''project'' r of Some r2 \<Rightarrow> contains ''patterns'' r2 | None \<Rightarrow> False) \<or>
          (case after_first ''your'' r of Some r2 \<Rightarrow> contains ''patterns'' r2 | None \<Rightarrow> False))"

definition has_adaptation :: "string \<Rightarrow> bool" where
  "has_adaptation content =
     (contains (lower ''I'' @ [CHR 0x27] @ ''ll adapt'') (lower content) \<or>
      contains ''adapt to your'' (lower content) \<or>
      list_ex following_patterns (split_lines (lower content)))"

text \<open>\<^verbatim>\<open>_check_best_practices\<close>.\<close>

definition check_best_practices :: "string \<Rightarrow> validator \<Rightarrow> validator" where
  "check_best_practices content v =
     (let v1 = (if contains ''## Best Practices'' content \<or> contains ''## Best practices'' content
                then add_info HasBestPractices v
                else add_warning NoBestPractices v);
          v2 = (if has_adaptation content then add_info HasAdaptation v1
                else add_warning NoAdaptation v1);
          code_blocks = count_sub ''```'' content
      in if code_blocks > 0 then add_info (CodeBlocks (code_blocks div 2)) v2 else v2)"

text \<open>
  \<^verbatim>\<open>validate\<close>. The file is given by what the validator asks of it: whether it exists,
  the suffix and the stem of its name, and its text (\<open>None\<close> when reading raises).
  \<^verbatim>\<open>
  self._check_file_naming()
  self._check_content_structure()
  self._check_arguments_placeholder()
  self._check_required_sections()
  self._check_heading_structure()
  self._check_process_steps()
  self._check_best_practices()
  return len(self.errors) == 0
  \<close>
\<close>

record command_file =
  file_exists :: bool
  file_suffix :: string
  file_stem :: string
  file_text :: "string option"

definition run_checks :: "string \<Rightarrow> string \<Rightarrow> validator \<Rightarrow> validator" where
  "run_checks name content v =
     check_best_practices content
       (check_process_steps content
         (check_heading_structure content
           (check_required_sections content
             (check_arguments_placeholder content
               (check_content_structure content
                 (check_file_naming name v))))))"

definition validate :: "command_file \<Rightarrow> bool \<times> validator" where
  "validate f =
     (if \<not> file_exists f then (False, add_error FileDoesNotExist new_validator)
      else if file_suffix f \<noteq> ''.md''
      then (False, add_error (BadExtension (file_suffix f)) new_validator)
      else case file_text f of
        None \<Rightarrow> (False, add_error ReadFailed new_validator)
      | Some content \<Rightarrow>
          (let v = run_checks (file_stem f) content new_validator
           in (errors v = [], v)))"

subsection \<open>Agent frontmatter\<close>

text \<open>The text before and the text after the first occurrence of \<open>sep\<close>.\<close>

fun split_first :: "string \<Rightarrow> string \<Rightarrow> (string \<times> string) option" where
  "split_first sep [] = (if sep = [] then Some ([], []) else None)"
| "split_first sep (c # cs) =
     (if prefix sep (c # cs) then Some ([], drop (length sep) (c # cs))
      else map_option (\<lambda>(b, a). (c # b, a)) (split_first sep cs))"

text \<open>
  \<^verbatim>\<open>re.match(r'^---\n(.*?)\n---\n(.*)$', content, re.DOTALL)\<close> in
  \<^verbatim>\<open>validate_skogix_agent.py\<close>: the text starts with three hyphens and a line break; the
  first group is lazy and ends at the first line break that is followed by three hyphens
  and a line break; with \<^verbatim>\<open>re.DOTALL\<close> the second group is all the rest. The result is the
  pair of the two groups.
\<close>

definition match_frontmatter :: "string \<Rightarrow> (string \<times> string) option" where
  "match_frontmatter content =
     (if prefix (''---'' @ [newline]) content
      then split_first (newline # ''---'' @ [newline]) (drop 4 content)
      else None)"

text \<open>
  \<^verbatim>\<open>re.match(r'^---\s*\n(.*?)\n---\s*\n', content, re.DOTALL)\<close> in
  \<^verbatim>\<open>validate_agent.py\<close>. After the three hyphens \<^verbatim>\<open>\s*\n\<close> takes white space up to a line
  break; \<^verbatim>\<open>\s*\<close> is greedy, so the line breaks of the white space after the hyphens are
  tried from the last one to the first one. \<open>opening_candidates\<close> lists, in that order,
  the texts that follow the opening. The closing \<^verbatim>\<open>\n---\s*\n\<close> holds at a line break
  followed by three hyphens and white space with a line break in it; the lazy group ends
  at the first such place. The result is the first group.
\<close>

definition opening_candidates :: "string \<Rightarrow> string list" where
  "opening_candidates content =
     (if prefix ''---'' content
      then (let w = takeWhile isspace (drop 3 content)
            in map (\<lambda>k. drop (3 + k + 1) content)
                 (filter (\<lambda>k. w ! k = newline) (rev [0..<length w])))
      else [])"

definition closing_at :: "string \<Rightarrow> bool" where
  "closing_at s =
     (prefix (newline # ''---'') s \<and> newline \<in> set (takeWhile isspace (drop 4 s)))"

fun find_closing :: "string \<Rightarrow> string option" where
  "find_closing [] = None"
| "find_closing (c # cs) =
     (if closing_at (c # cs) then Some [] else map_option ((#) c) (find_closing cs))"

fun first_some :: "'a option list \<Rightarrow> 'a option" where
  "first_some [] = None"
| "first_some (Some x # xs) = Some x"
| "first_some (None # xs) = first_some xs"

definition match_frontmatter_lenient :: "string \<Rightarrow> string option" where
  "match_frontmatter_lenient content =
     first_some (map find_closing (opening_candidates content))"

subsection \<open>The agent validators\<close>

text \<open>
  What \<^verbatim>\<open>yaml.safe_load\<close> returns: \<^verbatim>\<open>None\<close>, a truth value, a number, a string, a list
  or a dictionary. Only the keys \<^verbatim>\<open>name\<close>, \<^verbatim>\<open>description\<close> and \<^verbatim>\<open>color\<close> of a
  dictionary are looked up, so a dictionary is given by its entries with string keys,
  read with \<^const>\<open>map_of\<close>.
\<close>

datatype yaml =
    YNull
  | YBool bool
  | YInt int
  | YStr string
  | YSeq "yaml list"
  | YMap "(string \<times> yaml) list"

text \<open>
  The messages of the two agent validators, one constructor for each message text.
  The first group belongs to \<^verbatim>\<open>validate_skogix_agent.py\<close>, the last three to
  \<^verbatim>\<open>validate_agent.py\<close>; both have a message for a file that is not found and for a
  missing required field.
\<close>

datatype agent_finding =
    AgentFileNotFound
  | MissingRequiredField string
  | MissingYamlFrontmatter
  | InvalidYamlFrontmatter string
  | FieldMustBeString string
  | MissingColor
  | ColorNotRecommended yaml
  | MissingIdentity
  | MissingPrinciples
  | MissingHardToVary
  | MissingPopper
  | MissingKiss
  | MissingWorkflow
  | MissingInput
  | MissingOutput
  | MissingQuality
  | MissingUncertainty
  | NoFrontmatterFound
  | NoContentAfterFrontmatter
  | ModelNotValid string

text \<open>
  What a run of a validator leaves: the value it returns, its lists \<^verbatim>\<open>errors\<close> and
  \<^verbatim>\<open>warnings\<close> at that moment, and the messages it has printed. A run that ends with an
  exception that is not caught is \<open>None\<close>.
\<close>

record agent_report =
  returned :: bool
  agent_errors :: "agent_finding list"
  agent_warnings :: "agent_finding list"
  printed :: "agent_finding list"

text \<open>
  \<^verbatim>\<open>re.search(r'You are the \*\*[\w\s-]+\*\*', body)\<close>: the class is greedy and the two
  stars are not in it, so the stars must follow the longest run of the class.
\<close>

definition role_char :: "char \<Rightarrow> bool" where
  "role_char c = (isword c \<or> isspace c \<or> c = CHR ''-'')"

definition identity_at :: "string \<Rightarrow> bool" where
  "identity_at s =
     (prefix ''You are the **'' s \<and>
      takeWhile role_char (drop 14 s) \<noteq> [] \<and>
      prefix ''**'' (dropWhile role_char (drop 14 s)))"

fun has_identity :: "string \<Rightarrow> bool" where
  "has_identity [] = False"
| "has_identity (c # cs) = (identity_at (c # cs) \<or> has_identity cs)"

text \<open>The checks of the body, from the identity statement to the uncertainty handling.\<close>

definition pattern_warnings :: "string \<Rightarrow> agent_finding list" where
  "pattern_warnings body =
     (if \<not> has_identity body then [MissingIdentity] else []) @
     (if \<not> contains ''Principles'' body \<and> \<not> contains ''principles'' (lower body)
      then [MissingPrinciples] else []) @
     (if \<not> contains ''hard-to-vary'' (lower body) then [MissingHardToVary] else []) @
     (if \<not> contains ''popper'' (lower body) \<and> \<not> contains ''falsif'' (lower body)
      then [MissingPopper] else []) @
     (if \<not> contains ''kiss'' (lower body) then [MissingKiss] else []) @
     (if \<not> list_ex (\<lambda>keyword. contains keyword body)
              [''Workflow'', ''workflow'', ''Method'', ''method'', ''Steps'', ''steps'']
      then [MissingWorkflow] else []) @
     (if \<not> contains ''**Input'' body \<and> \<not> contains ''Input:'' body
      then [MissingInput] else []) @
     (if \<not> contains ''**Output'' body \<and> \<not> contains ''Output:'' body \<and>
         \<not> contains ''Deliverable'' body
      then [MissingOutput] else []) @
     (if \<not> list_ex (\<lambda>keyword. contains keyword body)
              [''Quality'', ''quality'', ''Checklist'', ''checklist'', ''Guidelines'',
               ''guidelines'']
      then [MissingQuality] else []) @
     (if \<not> contains ''If'' body \<or> \<not> contains ''rather than'' body
      then [MissingUncertainty] else [])"

text \<open>The checks of the fields \<^verbatim>\<open>name\<close>, \<^verbatim>\<open>description\<close> and \<^verbatim>\<open>color\<close>.\<close>

definition required_field :: "string \<Rightarrow> (string \<times> yaml) list \<Rightarrow> agent_finding list" where
  "required_field key frontmatter =
     (case map_of frontmatter key of
        None \<Rightarrow> [MissingRequiredField key]
      | Some (YStr s) \<Rightarrow> []
      | Some _ \<Rightarrow> [FieldMustBeString key])"

definition valid_colors :: "string list" where
  "valid_colors = [''blue'', ''cyan'', ''green'', ''yellow'', ''orange'', ''red'']"

definition color_warnings :: "(string \<times> yaml) list \<Rightarrow> agent_finding list" where
  "color_warnings frontmatter =
     (case map_of frontmatter ''color'' of
        None \<Rightarrow> [MissingColor]
      | Some v \<Rightarrow> if v \<notin> set (map YStr valid_colors) then [ColorNotRecommended v] else [])"

text \<open>
  The printing section evaluates \<^verbatim>\<open>frontmatter['description'][:60]\<close> when
  \<^verbatim>\<open>frontmatter.get('description')\<close> is true. A string and a list can be sliced; a
  number, \<^verbatim>\<open>True\<close> and a dictionary with entries cannot, and the slice raises.
\<close>

fun truthy :: "yaml \<Rightarrow> bool" where
  "truthy YNull = False"
| "truthy (YBool b) = b"
| "truthy (YInt i) = (i \<noteq> 0)"
| "truthy (YStr s) = (s \<noteq> [])"
| "truthy (YSeq l) = (l \<noteq> [])"
| "truthy (YMap m) = (m \<noteq> [])"

fun sliceable :: "yaml \<Rightarrow> bool" where
  "sliceable (YStr s) = True"
| "sliceable (YSeq l) = True"
| "sliceable y = False"

definition print_raises :: "(string \<times> yaml) list \<Rightarrow> bool" where
  "print_raises frontmatter =
     (case map_of frontmatter ''description'' of
        None \<Rightarrow> False
      | Some v \<Rightarrow> truthy v \<and> \<not> sliceable v)"

text \<open>
  \<^verbatim>\<open>validate_agent\<close> of \<^verbatim>\<open>validate_skogix_agent.py\<close>. The YAML parser is a parameter:
  \<open>yaml_load s\<close> is \<open>Inl\<close> of the message when \<^verbatim>\<open>yaml.safe_load\<close> raises
  \<^verbatim>\<open>yaml.YAMLError\<close> and \<open>Inr\<close> of the value otherwise. The file is \<open>None\<close> when the path
  does not exist. When the parser returns something other than a dictionary, the tests
  \<^verbatim>\<open>'name' not in frontmatter\<close>, \<^verbatim>\<open>frontmatter['name']\<close> or \<^verbatim>\<open>frontmatter.get\<close> raise.
  The two early returns after \<^verbatim>\<open>errors.append\<close> come before the printing section.
\<close>

definition validate_skogix_agent ::
  "(string \<Rightarrow> string + yaml) \<Rightarrow> string option \<Rightarrow> agent_report option" where
  "validate_skogix_agent yaml_load file =
     (case file of
        None \<Rightarrow>
          Some \<lparr>returned = False, agent_errors = [], agent_warnings = [],
                printed = [AgentFileNotFound]\<rparr>
      | Some content \<Rightarrow>
          (case match_frontmatter content of
             None \<Rightarrow>
               Some \<lparr>returned = False, agent_errors = [MissingYamlFrontmatter],
                     agent_warnings = [], printed = []\<rparr>
           | Some (frontmatter_str, body) \<Rightarrow>
               (case yaml_load frontmatter_str of
                  Inl e \<Rightarrow>
                    Some \<lparr>returned = False, agent_errors = [InvalidYamlFrontmatter e],
                          agent_warnings = [], printed = []\<rparr>
                | Inr (YMap frontmatter) \<Rightarrow>
                    (let errors = required_field ''name'' frontmatter @
                                  required_field ''description'' frontmatter;
                         warnings = color_warnings frontmatter @ pattern_warnings body
                     in if print_raises frontmatter then None
                        else if errors \<noteq> []
                        then Some \<lparr>returned = False, agent_errors = errors,
                                   agent_warnings = warnings, printed = errors\<rparr>
                        else Some \<lparr>returned = True, agent_errors = errors,
                                   agent_warnings = warnings, printed = warnings\<rparr>)
                | Inr _ \<Rightarrow> None)))"

text \<open>
  \<^verbatim>\<open>re.search(key + r':\s*(.+)', frontmatter)\<close> in \<^verbatim>\<open>validate_agent.py\<close>, with the first
  group and the end of the match. At a place where the key and the colon stand, \<^verbatim>\<open>\s*\<close>
  takes the white space that follows and the group takes the rest of the line; when
  only white space follows up to the end of the text, \<^verbatim>\<open>\s*\<close> gives back characters down
  to the last one that is not a line break, which becomes the group.
\<close>

definition field_at :: "string \<Rightarrow> string \<Rightarrow> (string \<times> nat) option" where
  "field_at key s =
     (if prefix (key @ '':'') s
      then (let rest = drop (length key + 1) s;
                w = takeWhile isspace rest;
                after = dropWhile isspace rest
            in if after \<noteq> []
               then (let g = takeWhile (\<lambda>c. c \<noteq> newline) after
                     in Some (g, length key + 1 + length w + length g))
               else (case filter (\<lambda>k. w ! k \<noteq> newline) (rev [0..<length w]) of
                       [] \<Rightarrow> None
                     | k # ks \<Rightarrow> Some ([w ! k], length key + 1 + k + 1)))
      else None)"

fun search_field :: "string \<Rightarrow> string \<Rightarrow> (string \<times> nat) option" where
  "search_field key [] = None"
| "search_field key (c # cs) =
     (case field_at key (c # cs) of
        Some r \<Rightarrow> Some r
      | None \<Rightarrow> map_option (\<lambda>(g, e). (g, Suc e)) (search_field key cs))"

text \<open>\<^verbatim>\<open>re.search(r'model:\s*(sonnet|opus|haiku|inherit)', frontmatter)\<close>, the first group.\<close>

definition valid_models :: "string list" where
  "valid_models = [''sonnet'', ''opus'', ''haiku'', ''inherit'']"

definition model_at :: "string \<Rightarrow> string option" where
  "model_at s =
     (if prefix ''model:'' s
      then List.find (\<lambda>m. prefix m (dropWhile isspace (drop 6 s))) valid_models
      else None)"

fun search_model :: "string \<Rightarrow> string option" where
  "search_model [] = None"
| "search_model (c # cs) =
     (case model_at (c # cs) of Some m \<Rightarrow> Some m | None \<Rightarrow> search_model cs)"

text \<open>
  \<^verbatim>\<open>validate_agent\<close> of \<^verbatim>\<open>validate_agent.py\<close>. The loop over the optional fields assigns
  each search result to the variable \<^verbatim>\<open>match\<close>, which held the frontmatter match; the
  fields are searched in the order \<^verbatim>\<open>tools\<close>, \<^verbatim>\<open>model\<close>, \<^verbatim>\<open>color\<close>, so
  \<^verbatim>\<open>content[match.end():]\<close> reads the end of the \<^verbatim>\<open>color\<close> match, an offset into the
  frontmatter text, and raises when there is no \<^verbatim>\<open>color\<close> field. The group of the model
  pattern is one of the valid models, and \<^verbatim>\<open>strip\<close> leaves it unchanged.
\<close>

definition validate_agent :: "string option \<Rightarrow> agent_report option" where
  "validate_agent file =
     (case file of
        None \<Rightarrow>
          Some \<lparr>returned = False, agent_errors = [], agent_warnings = [],
                printed = [AgentFileNotFound]\<rparr>
      | Some content \<Rightarrow>
          (case match_frontmatter_lenient content of
             None \<Rightarrow>
               Some \<lparr>returned = False, agent_errors = [], agent_warnings = [],
                     printed = [NoFrontmatterFound]\<rparr>
           | Some frontmatter \<Rightarrow>
               (let errors = map MissingRequiredField
                               (filter (\<lambda>field. search_field field frontmatter = None)
                                  [''name'', ''description'']);
                    warnings = (case search_model frontmatter of
                                  None \<Rightarrow> []
                                | Some m \<Rightarrow>
                                    if m \<notin> set valid_models then [ModelNotValid m] else [])
                in case search_field ''color'' frontmatter of
                     None \<Rightarrow> None
                   | Some (g, match_end) \<Rightarrow>
                       (let content_after = drop match_end content;
                            errors = errors @ (if strip content_after = []
                                               then [NoContentAfterFrontmatter] else [])
                        in if errors \<noteq> []
                           then Some \<lparr>returned = False, agent_errors = errors,
                                      agent_warnings = warnings, printed = errors\<rparr>
                           else Some \<lparr>returned = True, agent_errors = errors,
                                      agent_warnings = warnings, printed = warnings\<rparr>))))"

subsection \<open>Template fill\<close>

text \<open>
  \<^verbatim>\<open>template.format(**template_vars)\<close>. \<^verbatim>\<open>str.format\<close> reads the template from left to
  right: \<^verbatim>\<open>{{\<close> and \<^verbatim>\<open>}}\<close> stand for one brace, \<^verbatim>\<open>{name}\<close> is a replacement field, a
  single \<^verbatim>\<open>}\<close>, a \<^verbatim>\<open>{\<close> that is not closed and a \<^verbatim>\<open>{\<close> inside a field name raise
  \<^verbatim>\<open>ValueError\<close>. A field whose name is empty or a number refers to a positional
  argument; none is passed, so it raises \<^verbatim>\<open>IndexError\<close>. A name that is not among the
  keyword arguments raises \<^verbatim>\<open>KeyError\<close>. The reading stops at the first error.
  Conversions, format specifications, attributes and indices (a field with one of the
  characters \<^verbatim>\<open>! : . [\<close>) do not occur in the templates of the scripts and are not
  modelled: such a field is answered with \<open>Unsupported\<close>.
\<close>

datatype format_error = KeyError string | IndexError | ValueError | Unsupported

datatype piece = Lit char | Field string | Malformed format_error

fun pieces :: "string \<Rightarrow> piece list" where
  "pieces [] = []"
| "pieces (c # cs) =
     (if c = CHR ''{'' then
        (case cs of
           [] \<Rightarrow> [Malformed ValueError]
         | d # ds \<Rightarrow>
             if d = CHR ''{'' then Lit (CHR ''{'') # pieces ds
             else (let field = takeWhile (\<lambda>x. x \<noteq> CHR ''}'') cs
                   in if list_ex (\<lambda>x. x \<in> set ''!:.['') field then [Malformed Unsupported]
                      else if CHR ''{'' \<in> set field \<or> length field = length cs
                      then [Malformed ValueError]
                      else if list_all isdecimal field then [Malformed IndexError]
                      else Field field # pieces (drop (length field + 1) cs)))
      else if c = CHR ''}'' then
        (case cs of
           [] \<Rightarrow> [Malformed ValueError]
         | d # ds \<Rightarrow> if d = CHR ''}'' then Lit (CHR ''}'') # pieces ds
                    else [Malformed ValueError])
      else Lit c # pieces cs)"



text \<open>
  \<^verbatim>\<open>COMMAND_TEMPLATES\<close> of \<^verbatim>\<open>create_command.py\<close>. Each template is written line by line;
  every line, the last one too, ends with a line break.
\<close>

definition text_of_lines :: "string list \<Rightarrow> string" where
  "text_of_lines ls = concat (map (\<lambda>l. l @ [newline]) ls)"





datatype category = Generation | Analysis | Build | Workflow


text \<open>
  \<^verbatim>\<open>category_map.get(category, 'generation')\<close>: the answer to the category prompt selects
  the template, and any answer other than 2, 3 and 4 selects the first one.
\<close>

definition category_map :: "string \<Rightarrow> category" where
  "category_map answer =
     (if answer = ''2'' then Analysis
      else if answer = ''3'' then Build
      else if answer = ''4'' then Workflow
      else Generation)"



subsection \<open>Auxiliary notions for the statements\<close>

text \<open>The number of positions of a text at which \<open>sub\<close> starts.\<close>

fun occurrences :: "string \<Rightarrow> string \<Rightarrow> nat" where
  "occurrences sub [] = (if sub = [] then 1 else 0)"
| "occurrences sub (c # cs) = (if prefix sub (c # cs) then 1 else 0) + occurrences sub cs"

text \<open>The findings of \<open>v\<close> followed by those of \<open>w\<close>, list by list.\<close>

definition append_findings :: "validator \<Rightarrow> validator \<Rightarrow> validator" where
  "append_findings v w =
     \<lparr>errors = errors v @ errors w, warnings = warnings v @ warnings w, info = info v @ info w\<rparr>"

text \<open>
  A text begins with a delimiter line when its first line, which a line break ends, is
  three hyphens, with nothing but white space after them.
\<close>

definition begins_with_delimiter_line :: "string \<Rightarrow> bool" where
  "begins_with_delimiter_line content =
     (prefix ''---'' content \<and> newline \<in> set content \<and>
      list_all isspace (drop 3 (takeWhile (\<lambda>c. c \<noteq> newline) content)))"








definition is_brace :: "char \<Rightarrow> bool" where
  "is_brace c = (c = CHR ''{'' \<or> c = CHR ''}'')"






section \<open>Properties\<close>

subsection \<open>Directory resolution\<close>

lemma find_project_agents_root: "find_project_agents fs [] = None"
  by (simp add: find_project_agents.simps parent_def)

lemma find_project_agents_snoc:
  "find_project_agents fs (p @ [d]) =
     (if (p @ [d]) @ [''.claude''] \<in> fs then Some ((p @ [d]) @ [''.claude'', ''agents''])
      else find_project_agents fs p)"
  by (subst find_project_agents.simps) (simp add: parent_def exists_path_def)

lemma find_project_agents_found:
  "p \<noteq> [] \<Longrightarrow> p @ [''.claude''] \<in> fs \<Longrightarrow>
   (\<forall>q'. q' \<noteq> [] \<and> prefix q' q \<longrightarrow> p @ q' @ [''.claude''] \<notin> fs) \<Longrightarrow>
   find_project_agents fs (p @ q) = Some (p @ [''.claude'', ''agents''])"
proof (induction q rule: rev_induct)
  case Nil
  from \<open>p \<noteq> []\<close> obtain p' d where p: "p = p' @ [d]"
    by (cases p rule: rev_cases) auto
  show ?case using Nil(2) unfolding p append_Nil2
    by (simp only: find_project_agents_snoc if_True)
next
  case (snoc d q)
  have no: "(p @ q @ [d]) @ [''.claude''] \<notin> fs"
    using snoc.prems(3) by (metis append_assoc prefix_order.order_refl snoc_eq_iff_butlast)
  have below: "\<forall>q'. q' \<noteq> [] \<and> prefix q' q \<longrightarrow> p @ q' @ [''.claude''] \<notin> fs"
    using snoc.prems(3) by (meson prefix_order.order_trans prefixI)
  have "find_project_agents fs ((p @ q) @ [d]) = find_project_agents fs (p @ q)"
    using no by (simp only: find_project_agents_snoc) simp
  then show ?case using snoc.IH [OF snoc.prems(1,2) below] by simp
qed

lemma find_project_agents_none:
  "(\<forall>p. p \<noteq> [] \<and> prefix p cwd \<longrightarrow> p @ [''.claude''] \<notin> fs) \<Longrightarrow>
   find_project_agents fs cwd = None"
proof (induction cwd rule: rev_induct)
  case Nil
  show ?case by (rule find_project_agents_root)
next
  case (snoc d cwd)
  have "(cwd @ [d]) @ [''.claude''] \<notin> fs" using snoc.prems by blast
  moreover have "find_project_agents fs cwd = None"
    using snoc.prems by (intro snoc.IH) (meson prefix_order.order_trans prefixI)
  ultimately show ?case by (simp only: find_project_agents_snoc) simp
qed

text \<open>
  C1 (as amended). With project scope, \<^verbatim>\<open>activate_agent\<close> and \<^verbatim>\<open>create_agent\<close> start at
  the working directory and walk upward: when \<open>p\<close> is a directory other than the root
  that holds \<^verbatim>\<open>.claude\<close> and no directory between \<open>p\<close> and the working directory
  \<open>p @ q\<close> holds one, the result is \<open>p/.claude/agents\<close>; when no directory from the
  working directory up to and including the root holds \<^verbatim>\<open>.claude\<close>, the result is
  \<open>NoProjectRoot\<close>. \<^verbatim>\<open>create_command\<close> does not search: its result is always
  \<^verbatim>\<open>.claude/commands\<close> under the working directory.
\<close>

theorem project_scope_resolution:
  "(p \<noteq> [] \<and> p @ [''.claude''] \<in> fs \<and>
      (\<forall>q'. q' \<noteq> [] \<and> prefix q' q \<longrightarrow> p @ q' @ [''.claude''] \<notin> fs) \<longrightarrow>
      activate_agent_dir home (p @ q) fs ''project'' = Inr (p @ [''.claude'', ''agents'']) \<and>
      create_agent_dir home (p @ q) fs ''project'' = Inr (p @ [''.claude'', ''agents''])) \<and>
   ((\<forall>d. prefix d cwd \<longrightarrow> d @ [''.claude''] \<notin> fs) \<longrightarrow>
      activate_agent_dir home cwd fs ''project'' = Inl NoProjectRoot \<and>
      create_agent_dir home cwd fs ''project'' = Inl NoProjectRoot) \<and>
   create_command_dir home cwd fs ''project'' = Inr (cwd @ [''.claude'', ''commands''])"
  by (auto simp: activate_agent_dir_def create_agent_dir_def create_command_dir_def
        find_project_agents_found find_project_agents_none)

lemma prefix_abc: "prefix q' [b, c] \<longleftrightarrow> q' = [] \<or> q' = [b] \<or> q' = [b, c]"
  by (auto simp: prefix_Cons prefix_def Cons_eq_append_conv) 

theorem project_scope_resolution_witness:
  "activate_agent_dir [''home''] [''a'', ''b'', ''c''] {[''a'', ''.claude'']} ''project''
     = Inr [''a'', ''.claude'', ''agents''] \<and>
   create_agent_dir [''home''] [''a'', ''b'', ''c''] {[''a'', ''.claude'']} ''project''
     = Inr [''a'', ''.claude'', ''agents''] \<and>
   activate_agent_dir [''home''] [''a'', ''b'', ''c''] {} ''project'' = Inl NoProjectRoot \<and>
   create_agent_dir [''home''] [''a'', ''b'', ''c''] {} ''project'' = Inl NoProjectRoot \<and>
   create_command_dir [''home''] [''a'', ''b'', ''c''] {} ''project''
     = Inr [''a'', ''b'', ''c'', ''.claude'', ''commands'']"
  using project_scope_resolution [of "[''a'']" "{[''a'', ''.claude'']}" "[''b'', ''c'']" "[''home'']" "[''a'', ''b'', ''c'']"]
        project_scope_resolution [of "[''a'']" "{}" "[]" "[''home'']" "[''a'', ''b'', ''c'']"]
  by (simp add: prefix_abc)

text \<open>
  The claim C1 as stated fails for \<^verbatim>\<open>create_command\<close>: from the working directory
  \<^verbatim>\<open>/a/b\<close>, with the marker in \<^verbatim>\<open>/a\<close> only, it answers \<^verbatim>\<open>/a/b/.claude/commands\<close> and
  not \<^verbatim>\<open>/a/.claude/commands\<close>.
\<close>

theorem create_command_no_upward_search:
  "create_command_dir [''home''] [''a'', ''b''] {[''a'', ''.claude'']} ''project''
     = Inr [''a'', ''b'', ''.claude'', ''commands'']"
  by (simp add: create_command_dir_def)

text \<open>
  C10. The upward search stops at the directory that is its own parent without testing
  it: when \<^verbatim>\<open>.claude\<close> exists in the root and in no other directory from the working
  directory upward (the working directory may be the root itself), resolution reports
  \<open>NoProjectRoot\<close>.
\<close>

theorem root_marker_not_found:
  "[''.claude''] \<in> fs \<Longrightarrow>
   (\<forall>d. d \<noteq> [] \<and> prefix d cwd \<longrightarrow> d @ [''.claude''] \<notin> fs) \<Longrightarrow>
   activate_agent_dir home cwd fs ''project'' = Inl NoProjectRoot \<and>
   create_agent_dir home cwd fs ''project'' = Inl NoProjectRoot"
  by (simp add: activate_agent_dir_def create_agent_dir_def find_project_agents_none)

theorem root_marker_not_found_witness:
  "activate_agent_dir [''home''] [''a'', ''b''] {[''.claude'']} ''project'' = Inl NoProjectRoot \<and>
   create_agent_dir [''home''] [''a'', ''b''] {[''.claude'']} ''project'' = Inl NoProjectRoot \<and>
   activate_agent_dir [''home''] [] {[''.claude'']} ''project'' = Inl NoProjectRoot"
  using root_marker_not_found [of "{[''.claude'']}" "[''a'', ''b'']" "[''home'']"]
        root_marker_not_found [of "{[''.claude'']}" "[]" "[''home'']"]
  by simp

subsection \<open>Command names\<close>

text \<open>
  C4. The claim says that \<^verbatim>\<open>create_command.py\<close> rejects a command name exactly when the
  validator reports a kebab-case error for the file name. The name \<^verbatim>\<open>a--b\<close> passes both
  tests of \<^verbatim>\<open>main\<close>, and the validator reports the kebab-case error for it.
\<close>

theorem create_command_accepts_double_hyphen:
  "check_command_name ''a--b'' = None \<and>
   errors (check_file_naming ''a--b'' new_validator) = [NotKebabCase ''a--b'']"
  by code_simp

subsection \<open>The placeholder check\<close>

lemma occurrences_arguments_prefix:
  "occurrences ''$ARGUMENTS'' (''$ARGUMENTS'' @ r) = 1 + occurrences ''$ARGUMENTS'' r"
  by simp

lemma count_sub_Nil: "sub \<noteq> [] \<Longrightarrow> count_sub sub [] = 0"
  by (subst count_sub.simps) simp

lemma count_sub_prefix:
  "sub \<noteq> [] \<Longrightarrow> count_sub sub (sub @ r) = 1 + count_sub sub r"
  by (subst count_sub.simps) simp

lemma count_sub_no_prefix:
  "sub \<noteq> [] \<Longrightarrow> \<not> prefix sub (c # cs) \<Longrightarrow> count_sub sub (c # cs) = count_sub sub cs"
  by (subst count_sub.simps) simp

lemma count_sub_occurrences:
  "count_sub ''$ARGUMENTS'' s = occurrences ''$ARGUMENTS'' s"
proof (induction s rule: length_induct)
  case (1 s)
  show ?case
  proof (cases "prefix ''$ARGUMENTS'' s")
    case True
    then obtain r where s: "s = ''$ARGUMENTS'' @ r"
      by (auto simp: prefix_def)
    have "count_sub ''$ARGUMENTS'' r = occurrences ''$ARGUMENTS'' r"
      using 1 by (simp add: s)
    then show ?thesis
      unfolding s occurrences_arguments_prefix
      by (subst count_sub_prefix) simp_all
  next
    case False
    show ?thesis
    proof (cases s)
      case Nil
      then show ?thesis by (simp add: count_sub_Nil)
    next
      case (Cons c cs)
      have "count_sub ''$ARGUMENTS'' cs = occurrences ''$ARGUMENTS'' cs"
        using 1 Cons by simp
      then show ?thesis
        using False unfolding Cons
        by (subst count_sub_no_prefix) simp_all
    qed
  qed
qed

lemma contains_occurrences: "contains sub s \<longleftrightarrow> occurrences sub s \<ge> 1"
  by (induction s) auto

text \<open>
  C5. When the token \<^verbatim>\<open>$ARGUMENTS\<close> does not appear in the document, the check adds
  exactly one error, for the missing placeholder, and nothing else. When it appears,
  the check counts its occurrences (the count is the number of positions at which the
  token starts, at least one), adds a warning when the count exceeds 5, adds the count
  as an info finding, and adds no error.
\<close>

theorem arguments_placeholder_check:
  "(\<not> contains ''$ARGUMENTS'' content \<longrightarrow>
      check_arguments_placeholder content v = v\<lparr>errors := errors v @ [MissingArguments]\<rparr>) \<and>
   (contains ''$ARGUMENTS'' content \<longrightarrow>
      (let n = occurrences ''$ARGUMENTS'' content
       in n \<ge> 1 \<and>
          check_arguments_placeholder content v =
            v\<lparr>warnings := warnings v @ (if n > 5 then [ManyArguments n] else []),
              info := info v @ [FoundArguments n]\<rparr>))"
  by (simp add: check_arguments_placeholder_def Let_def count_sub_occurrences
        contains_occurrences add_error_def add_warning_def add_info_def)

theorem arguments_placeholder_check_witness:
  "check_arguments_placeholder ''no placeholder'' new_validator
     = new_validator\<lparr>errors := [MissingArguments]\<rparr> \<and>
   check_arguments_placeholder ''run $ARGUMENTS on $ARGUMENTS'' new_validator
     = new_validator\<lparr>info := [FoundArguments 2]\<rparr>"
proof -
  have a: "\<not> contains ''$ARGUMENTS'' ''no placeholder''" by code_simp
  have b: "contains ''$ARGUMENTS'' ''run $ARGUMENTS on $ARGUMENTS''" by code_simp
  have n: "occurrences ''$ARGUMENTS'' ''run $ARGUMENTS on $ARGUMENTS'' = 2" by code_simp
  from a b n
    arguments_placeholder_check [of "''no placeholder''" new_validator]
    arguments_placeholder_check [of "''run $ARGUMENTS on $ARGUMENTS''" new_validator]
  show ?thesis by (simp add: new_validator_def Let_def)
qed

subsection \<open>The process steps check\<close>

text \<open>
  C6. The claim says that the numbered items are counted in the text from the
  \<^verbatim>\<open>## Process\<close> heading to the next \<^verbatim>\<open>##\<close> heading. In the document below the Process
  section is empty and the three numbered items belong to the section after it; the
  check takes the following section as the text of the Process section and reports
  three well-defined steps, where the claim expects the warning for no numbered item.
\<close>

theorem process_steps_counts_next_section:
  "search_process ''## Process\<newline>\<newline>## Notes\<newline>1. a\<newline>2. b\<newline>3. c''
     = Some ''## Notes\<newline>1. a\<newline>2. b\<newline>3. c'' \<and>
   check_process_steps ''## Process\<newline>\<newline>## Notes\<newline>1. a\<newline>2. b\<newline>3. c'' new_validator
     = new_validator\<lparr>info := [WellDefinedSteps 3]\<rparr>"
  by code_simp

subsection \<open>The heading check\<close>

lemma heading_level_takeWhile:
  "length line - length (lstrip_hash line) = length (takeWhile (\<lambda>c. c = CHR ''#'') line)"
proof -
  have "length (takeWhile (\<lambda>c. c = CHR ''#'') line) + length (dropWhile (\<lambda>c. c = CHR ''#'') line)
          = length line"
    by (simp only: length_append [symmetric] takeWhile_dropWhile_id)
  then show ?thesis by (simp add: lstrip_hash_def)
qed

lemma collect_headings_eq:
  "collect_headings i lines =
     map (\<lambda>k. (length (takeWhile (\<lambda>c. c = CHR ''#'') (lines ! k)),
                strip (strip_hash (lines ! k)), i + k))
       (filter (\<lambda>k. startswith (strip (lines ! k)) ''#'') [0..<length lines])"
proof (induction lines arbitrary: i)
  case Nil
  show ?case by simp
next
  case (Cons line lines)
  have upt: "[0..<length (line # lines)] = 0 # map Suc [0..<length lines]"
    by (simp add: upt_conv_Cons map_Suc_upt del: upt_Suc)
  show ?case
    unfolding upt
    by (simp add: Cons.IH filter_map o_def heading_level_takeWhile)
qed

lemma hierarchy_jumps_eq:
  "hierarchy_jumps hs v =
     v\<lparr>warnings := warnings v @
        map (\<lambda>(p, c). HierarchyJump (heading_level p) (heading_level c) (heading_line c))
          (filter (\<lambda>(p, c). heading_level c > heading_level p + 1) (zip hs (tl hs)))\<rparr>"
  by (induction hs v rule: hierarchy_jumps.induct) (simp_all add: add_warning_def)

text \<open>
  C7. The claim says that the check collects every heading with its level, the number
  of \<^verbatim>\<open>#\<close> characters that lead it, and warns at every heading whose level is more
  than one above the level of the heading before it. The check recognises a heading on
  the stripped line, \<^verbatim>\<open>line.strip().startswith('#')\<close>, and counts the \<^verbatim>\<open>#\<close> characters
  on the line as it stands, \<^verbatim>\<open>len(line) - len(line.lstrip('#'))\<close>. In the document below
  a heading of level 3, indented by two blanks, follows a heading of level 1. The check
  collects it as a heading of level 0 with the text \<^verbatim>\<open>### B\<close> and adds no warning for the
  jump from level 1 to level 3.
\<close>

theorem indented_heading_has_level_zero:
  "collect_headings 1 (split_lines ''# A\<newline>  ### B'') = [(1, ''A'', 1), (0, ''### B'', 2)] \<and>
   check_heading_structure ''# A\<newline>  ### B'' new_validator
     = new_validator\<lparr>info := [FoundHeadings 2]\<rparr>"
  by code_simp

subsection \<open>All checks run\<close>

lemma append_findings_new [simp]: "append_findings new_validator v = v"
  by (simp add: append_findings_def new_validator_def)

lemma add_error_append: "add_error f v = append_findings v (add_error f new_validator)"
  by (simp add: append_findings_def add_error_def new_validator_def)

lemma add_warning_append: "add_warning f v = append_findings v (add_warning f new_validator)"
  by (simp add: append_findings_def add_warning_def new_validator_def)

lemma add_info_append: "add_info f v = append_findings v (add_info f new_validator)"
  by (simp add: append_findings_def add_info_def new_validator_def)

lemma append_findings_self: "v = append_findings v new_validator"
  by (simp add: append_findings_def new_validator_def)

lemma check_file_naming_append:
  "check_file_naming name v = append_findings v (check_file_naming name new_validator)"
  by (simp add: check_file_naming_def append_findings_def add_error_def add_warning_def
        new_validator_def Let_def)

lemma check_content_structure_append:
  "check_content_structure content v
     = append_findings v (check_content_structure content new_validator)"
  by (simp add: check_content_structure_def append_findings_def add_error_def add_warning_def
        new_validator_def Let_def)

lemma check_arguments_placeholder_append:
  "check_arguments_placeholder content v
     = append_findings v (check_arguments_placeholder content new_validator)"
  by (simp add: check_arguments_placeholder_def append_findings_def add_error_def
        add_warning_def add_info_def new_validator_def Let_def)

lemma check_required_sections_append:
  "check_required_sections content v
     = append_findings v (check_required_sections content new_validator)"
  by (simp add: check_required_sections_def check_section_def append_findings_def add_error_def
        add_info_def new_validator_def)

lemma hierarchy_jumps_append:
  "hierarchy_jumps hs v = append_findings v (hierarchy_jumps hs new_validator)"
proof -
  let ?jumps = "map (\<lambda>(p, c). HierarchyJump (heading_level p) (heading_level c) (heading_line c))
          (filter (\<lambda>(p, c). heading_level c > heading_level p + 1) (zip hs (tl hs)))"
  have "hierarchy_jumps hs v = v\<lparr>warnings := warnings v @ ?jumps\<rparr>"
    by (rule hierarchy_jumps_eq)
  moreover have "hierarchy_jumps hs new_validator
      = new_validator\<lparr>warnings := warnings new_validator @ ?jumps\<rparr>"
    by (rule hierarchy_jumps_eq)
  ultimately show ?thesis
    by (simp add: append_findings_def new_validator_def)
qed

lemma check_heading_structure_append:
  "check_heading_structure content v
     = append_findings v (check_heading_structure content new_validator)"
  by (simp add: check_heading_structure_def Let_def hierarchy_jumps_eq append_findings_def
        add_error_def add_warning_def add_info_def new_validator_def)

lemma check_process_steps_append:
  "check_process_steps content v
     = append_findings v (check_process_steps content new_validator)"
  by (simp add: check_process_steps_def Let_def append_findings_def
        add_warning_def add_info_def new_validator_def split: option.split)

lemma check_best_practices_append:
  "check_best_practices content v
     = append_findings v (check_best_practices content new_validator)"
  by (simp add: check_best_practices_def Let_def append_findings_def
        add_warning_def add_info_def new_validator_def)

lemma run_checks_findings:
  "run_checks name content new_validator =
     foldl append_findings new_validator
       [check_file_naming name new_validator,
        check_content_structure content new_validator,
        check_arguments_placeholder content new_validator,
        check_required_sections content new_validator,
        check_heading_structure content new_validator,
        check_process_steps content new_validator,
        check_best_practices content new_validator]"
  unfolding run_checks_def foldl.simps append_findings_new
  by (subst check_best_practices_append, subst check_process_steps_append,
      subst check_heading_structure_append, subst check_required_sections_append,
      subst check_arguments_placeholder_append, subst check_content_structure_append)
     (rule refl)

text \<open>
  C9 (as amended). For a file that exists, has the suffix \<^verbatim>\<open>.md\<close> and can be read, all
  seven check methods run, whatever the earlier ones found: the findings of the validator
  are the findings that each method produces on its own, in the order of the calls, and
  the file is valid exactly when no error was found. Inside the content check an empty
  (white space only) content gives the single error for the empty file; the error for
  the missing title is reported when the content is not empty and has no title line.
\<close>

theorem all_check_methods_run:
  "file_exists f \<and> file_suffix f = ''.md'' \<and> file_text f = Some content \<longrightarrow>
     snd (validate f) =
       foldl append_findings new_validator
         [check_file_naming (file_stem f) new_validator,
          check_content_structure content new_validator,
          check_arguments_placeholder content new_validator,
          check_required_sections content new_validator,
          check_heading_structure content new_validator,
          check_process_steps content new_validator,
          check_best_practices content new_validator] \<and>
     fst (validate f) = (errors (snd (validate f)) = []) \<and>
     (strip content = [] \<longrightarrow>
        check_content_structure content new_validator = add_error FileEmpty new_validator) \<and>
     (strip content \<noteq> [] \<and> \<not> has_title content \<longrightarrow>
        MissingTitle \<in> set (errors (snd (validate f))))"
proof (intro impI, elim conjE)
  assume f: "file_exists f" "file_suffix f = ''.md''" "file_text f = Some content"
  have v: "validate f =
      (errors (run_checks (file_stem f) content new_validator) = [],
       run_checks (file_stem f) content new_validator)"
    using f by (simp add: validate_def Let_def)
  have title: "MissingTitle \<in> set (errors (snd (validate f)))"
    if "strip content \<noteq> []" "\<not> has_title content"
    unfolding v snd_conv run_checks_findings
    using that
    by (simp add: append_findings_def check_content_structure_def Let_def
          add_error_def add_warning_def new_validator_def)
  have a: "snd (validate f) =
       foldl append_findings new_validator
         [check_file_naming (file_stem f) new_validator,
          check_content_structure content new_validator,
          check_arguments_placeholder content new_validator,
          check_required_sections content new_validator,
          check_heading_structure content new_validator,
          check_process_steps content new_validator,
          check_best_practices content new_validator]"
    by (simp only: v snd_conv run_checks_findings)
  have b: "fst (validate f) = (errors (snd (validate f)) = [])"
    by (simp add: v)
  have c: "strip content = [] \<longrightarrow>
        check_content_structure content new_validator = add_error FileEmpty new_validator"
    by (simp add: check_content_structure_def)
  have d: "strip content \<noteq> [] \<and> \<not> has_title content \<longrightarrow>
        MissingTitle \<in> set (errors (snd (validate f)))"
    using title by blast
  from a b c d show "snd (validate f) =
       foldl append_findings new_validator
         [check_file_naming (file_stem f) new_validator,
          check_content_structure content new_validator,
          check_arguments_placeholder content new_validator,
          check_required_sections content new_validator,
          check_heading_structure content new_validator,
          check_process_steps content new_validator,
          check_best_practices content new_validator] \<and>
     fst (validate f) = (errors (snd (validate f)) = []) \<and>
     (strip content = [] \<longrightarrow>
        check_content_structure content new_validator = add_error FileEmpty new_validator) \<and>
     (strip content \<noteq> [] \<and> \<not> has_title content \<longrightarrow>
        MissingTitle \<in> set (errors (snd (validate f))))"
    by (intro conjI)
qed

text \<open>
  The claim C9 as stated fails: an empty file gets the findings of the other check
  methods, but not the error for the missing title, since the content check returns
  after reporting the empty file.
\<close>

theorem empty_file_has_no_title_error:
  "validate \<lparr>file_exists = True, file_suffix = ''.md'', file_stem = ''my-command'',
             file_text = Some []\<rparr> =
     (False,
      \<lparr>errors = [FileEmpty, MissingArguments, MissingSection ''## Task'',
                 MissingSection ''## Process'', NoHeadings],
       warnings = [NoBestPractices, NoAdaptation],
       info = []\<rparr>)"
  by code_simp

theorem all_check_methods_run_witness:
  "check_content_structure [] new_validator = add_error FileEmpty new_validator \<and>
   MissingTitle \<in> set (errors (snd (validate
     \<lparr>file_exists = True, file_suffix = ''.md'', file_stem = ''my-command'',
      file_text = Some ''plain text''\<rparr>)))"
proof -
  let ?f0 = "\<lparr>file_exists = True, file_suffix = ''.md'', file_stem = ''my-command'',
              file_text = Some []\<rparr>"
  let ?f1 = "\<lparr>file_exists = True, file_suffix = ''.md'', file_stem = ''my-command'',
              file_text = Some ''plain text''\<rparr>"
  have h0: "file_exists ?f0 \<and> file_suffix ?f0 = ''.md'' \<and> file_text ?f0 = Some []"
    by simp
  have e0: "strip [] = []"
    by (simp add: strip_def)
  have h1: "file_exists ?f1 \<and> file_suffix ?f1 = ''.md'' \<and> file_text ?f1 = Some ''plain text''"
    by simp
  have e1: "strip ''plain text'' \<noteq> [] \<and> \<not> has_title ''plain text''"
    by code_simp
  from all_check_methods_run [of ?f0 "[]"] h0 e0
  have "check_content_structure [] new_validator = add_error FileEmpty new_validator"
    by blast
  moreover from all_check_methods_run [of ?f1 "''plain text''"] h1 e1
  have "MissingTitle \<in> set (errors (snd (validate ?f1)))"
    by blast
  ultimately show ?thesis by blast
qed

subsection \<open>The agent validators\<close>

text \<open>
  A text that does not begin with a delimiter line has no frontmatter for either
  validator: both return \<^verbatim>\<open>False\<close> at once with no finding about a field. The strict
  validator leaves its message in \<^verbatim>\<open>errors\<close> and prints nothing.
\<close>

lemma first_some_Some: "first_some xs = Some y \<Longrightarrow> xs \<noteq> []"
  by (cases xs) simp_all

lemma delimiter_line_of_white_space:
  assumes p: "prefix ''---'' content"
    and n: "newline \<in> set (takeWhile isspace (drop 3 content))"
  shows "begins_with_delimiter_line content"
proof -
  define w where "w = takeWhile isspace (drop 3 content)"
  define r where "r = dropWhile isspace (drop 3 content)"
  from p obtain rest where c: "content = ''---'' @ rest"
    by (auto simp add: prefix_def)
  then have rest: "rest = w @ r"
    by (simp add: w_def r_def)
  from n have nw: "newline \<in> set w"
    by (simp add: w_def)
  have tw: "takeWhile (\<lambda>c. c \<noteq> newline) rest = takeWhile (\<lambda>c. c \<noteq> newline) w"
    unfolding rest using nw by (intro takeWhile_append1 [of newline]) simp_all
  have "takeWhile (\<lambda>c. c \<noteq> newline) content = ''---'' @ takeWhile (\<lambda>c. c \<noteq> newline) w"
    unfolding c using tw by (simp add: newline_def)
  then have d: "drop 3 (takeWhile (\<lambda>c. c \<noteq> newline) content) = takeWhile (\<lambda>c. c \<noteq> newline) w"
    by simp
  have "\<forall>x\<in>set w. isspace x"
    unfolding w_def by (auto dest: set_takeWhileD)
  then have "list_all isspace (takeWhile (\<lambda>c. c \<noteq> newline) w)"
    by (auto simp add: list_all_iff dest: set_takeWhileD)
  moreover from nw have "newline \<in> set content"
    unfolding c rest by simp
  ultimately show ?thesis
    using p d by (simp add: begins_with_delimiter_line_def)
qed

lemma strict_match_delimiter_line:
  assumes "match_frontmatter content = Some r"
  shows "begins_with_delimiter_line content"
proof -
  from assms have p: "prefix (''---'' @ [newline]) content"
    by (simp add: match_frontmatter_def split: if_splits)
  then obtain rest where c: "content = ''---'' @ newline # rest"
    by (auto simp add: prefix_def)
  have "isspace newline"
    by (simp add: isspace_def newline_def)
  then have "newline \<in> set (takeWhile isspace (drop 3 content))"
    unfolding c by simp
  moreover have "prefix ''---'' content"
    unfolding c by simp
  ultimately show ?thesis
    by (rule delimiter_line_of_white_space [rotated])
qed

lemma lenient_match_delimiter_line:
  assumes "match_frontmatter_lenient content = Some r"
  shows "begins_with_delimiter_line content"
proof -
  from assms have ne: "opening_candidates content \<noteq> []"
    by (auto simp add: match_frontmatter_lenient_def dest: first_some_Some)
  then have p: "prefix ''---'' content"
    by (simp add: opening_candidates_def split: if_splits)
  from ne p obtain k where "k < length (takeWhile isspace (drop 3 content))"
    "takeWhile isspace (drop 3 content) ! k = newline"
    by (auto simp add: opening_candidates_def Let_def filter_empty_conv)
  then have "newline \<in> set (takeWhile isspace (drop 3 content))"
    by (metis nth_mem)
  with p show ?thesis
    by (rule delimiter_line_of_white_space)
qed

lemma no_delimiter_line_no_frontmatter:
  assumes "\<not> begins_with_delimiter_line content"
  shows "validate_skogix_agent yaml_load (Some content)
           = Some \<lparr>returned = False, agent_errors = [MissingYamlFrontmatter], agent_warnings = [],
                   printed = []\<rparr>"
    and "validate_agent (Some content)
           = Some \<lparr>returned = False, agent_errors = [], agent_warnings = [],
                   printed = [NoFrontmatterFound]\<rparr>"
proof -
  from assms have "match_frontmatter content = None"
    using strict_match_delimiter_line by (cases "match_frontmatter content") auto
  then show "validate_skogix_agent yaml_load (Some content)
           = Some \<lparr>returned = False, agent_errors = [MissingYamlFrontmatter], agent_warnings = [],
                   printed = []\<rparr>"
    by (simp add: validate_skogix_agent_def)
  from assms have "match_frontmatter_lenient content = None"
    using lenient_match_delimiter_line by (cases "match_frontmatter_lenient content") auto
  then show "validate_agent (Some content)
           = Some \<lparr>returned = False, agent_errors = [], agent_warnings = [],
                   printed = [NoFrontmatterFound]\<rparr>"
    by (simp add: validate_agent_def)
qed

text \<open>
  C2. The claim says that for a text that does not begin with a line of three hyphens
  both validators report a missing-frontmatter error and return failure at once, with
  no finding about a field. For the text \<^verbatim>\<open>name: x\<close> both return \<^verbatim>\<open>False\<close> with no finding
  about a field, and \<^verbatim>\<open>validate_agent.py\<close> prints its message. \<^verbatim>\<open>validate_skogix_agent.py\<close>
  appends its message to \<^verbatim>\<open>errors\<close> and returns before the section that prints the
  errors: the message is never shown, whatever the YAML parser is.
\<close>

theorem strict_validator_fails_silently:
  "validate_skogix_agent yaml_load (Some ''name: x'')
     = Some \<lparr>returned = False, agent_errors = [MissingYamlFrontmatter], agent_warnings = [],
             printed = []\<rparr> \<and>
   validate_agent (Some ''name: x'')
     = Some \<lparr>returned = False, agent_errors = [], agent_warnings = [],
             printed = [NoFrontmatterFound]\<rparr>"
  by code_simp





subsection \<open>Template fill\<close>




lemma text_of_lines_Nil: "text_of_lines [] = []"
  by (simp add: text_of_lines_def)


lemma plain_line:
  "\<not> list_ex is_brace l \<Longrightarrow> pieces (l @ [newline]) = map Lit (l @ [newline])"
  by (induction l) (simp_all add: is_brace_def newline_def)






























end
